theory Spec2Isabelle
  imports Main "HOL-Library.Word"
begin

unbundle bit_operations_syntax

section \<open>Data model\<close>

text \<open>
  The library is one header, \<^verbatim>\<open>src/FlashSettings.h\<close>.  It only compiles for the ESP8266 and
  ESP32 (\<^verbatim>\<open>#error "architecture not supported"\<close> otherwise): little-endian targets with
  32-bit \<^verbatim>\<open>int\<close>, \<^verbatim>\<open>unsigned int\<close> and \<^verbatim>\<open>size_t\<close>.
\<close>

type_synonym uint8_t = "8 word"
type_synonym uint16_t = "16 word"

text \<open>
  \<^verbatim>\<open>class FlashDataBase { public: uint16_t m_size; uint16_t m_checksum; };\<close>
\<close>

record FlashDataBase =
  m_size :: uint16_t
  m_checksum :: uint16_t

text \<open>
  The user's settings struct \<^verbatim>\<open>T\<close> derives from \<^verbatim>\<open>FlashDataBase\<close>
  (\<^verbatim>\<open>static_assert(std::is_base_of<FlashDataBase, T>::value, ...)\<close>), so its object is the
  four header bytes followed by the bytes of the user's own members, padding included.  The store
  never looks into the user's members: they are the byte list \<open>payload\<close>.
  \<^verbatim>\<open>FlashSettings<T, FlashPartitionSize>\<close> derives from \<^verbatim>\<open>T\<close> and adds no member, so the
  object it wraps is a \<open>T\<close>.
\<close>

record T = FlashDataBase +
  payload :: "uint8_t list"

text \<open>\<^verbatim>\<open>sizeof(T)\<close>: the header's two 16-bit fields and the user's bytes.\<close>

definition sizeof_T :: "T \<Rightarrow> nat" where
  "sizeof_T this = 4 + length (payload this)"

text \<open>The two bytes of a 16-bit value, as a little-endian target stores them.\<close>

definition lo_byte :: "uint16_t \<Rightarrow> uint8_t" where
  "lo_byte w = ucast w"

definition hi_byte :: "uint16_t \<Rightarrow> uint8_t" where
  "hi_byte w = ucast (drop_bit 8 w)"

text \<open>
  \<^verbatim>\<open>(uint8_t *)static_cast<FlashDataBase*>(this)\<close>: the \<^verbatim>\<open>sizeof(T)\<close> bytes of the object.
\<close>

definition pData :: "T \<Rightarrow> uint8_t list" where
  "pData this =
     [lo_byte (m_size this), hi_byte (m_size this),
      lo_byte (m_checksum this), hi_byte (m_checksum this)] @ payload this"

text \<open>
  \<^verbatim>\<open>uint16_t *pwTemp = (uint16_t *)data;\<close> reading \<^verbatim>\<open>pwTemp[k]\<close> and assigning to it, on
  the byte array \<open>data\<close>.
\<close>

definition pwTemp_get :: "uint8_t list \<Rightarrow> nat \<Rightarrow> uint16_t" where
  "pwTemp_get data k = push_bit 8 (ucast (data ! (2 * k + 1))) OR ucast (data ! (2 * k))"

definition pwTemp_set :: "uint8_t list \<Rightarrow> nat \<Rightarrow> uint16_t \<Rightarrow> uint8_t list" where
  "pwTemp_set data k w = data[2 * k := lo_byte w, 2 * k + 1 := hi_byte w]"

text \<open>
  \<^verbatim>\<open>memcpy(static_cast<FlashDataBase*>(this), data, sizeof(T))\<close>: every byte of the object is
  overwritten, the header fields included.
\<close>

definition memcpy_this :: "uint8_t list \<Rightarrow> T" where
  "memcpy_this data =
     \<lparr>m_size = pwTemp_get data 0, m_checksum = pwTemp_get data 1, payload = drop 4 data\<rparr>"

section \<open>The storage driver\<close>

text \<open>
  Modelled from the spec: the Arduino \<^verbatim>\<open>EEPROM\<close> object (\<^verbatim>\<open><EEPROM.h>\<close>) is an external
  library.  The spec's storage driver contract is an opaque byte array with
  \<^verbatim>\<open>open(capacity_bytes)\<close>, \<^verbatim>\<open>read_byte(offset)\<close>, \<^verbatim>\<open>write_byte(offset, byte)\<close> and
  \<^verbatim>\<open>commit()\<close>.  The state is the byte at every offset and the trace of the operations issued so
  far, oldest first.
\<close>

datatype eeprom_op = Open nat | Read nat | Write nat uint8_t | Commit

record eeprom =
  cells :: "nat \<Rightarrow> uint8_t"
  trace :: "eeprom_op list"

definition EEPROM_begin :: "eeprom \<Rightarrow> nat \<Rightarrow> eeprom" where
  "EEPROM_begin E capacity = E\<lparr>trace := trace E @ [Open capacity]\<rparr>"

definition EEPROM_read :: "eeprom \<Rightarrow> nat \<Rightarrow> uint8_t \<times> eeprom" where
  "EEPROM_read E i = (cells E i, E\<lparr>trace := trace E @ [Read i]\<rparr>)"

definition EEPROM_write :: "eeprom \<Rightarrow> nat \<Rightarrow> uint8_t \<Rightarrow> eeprom" where
  "EEPROM_write E i v = E\<lparr>cells := (cells E)(i := v), trace := trace E @ [Write i v]\<rparr>"

definition EEPROM_commit :: "eeprom \<Rightarrow> eeprom" where
  "EEPROM_commit E = E\<lparr>trace := trace E @ [Commit]\<rparr>"

text \<open>Whether an operation changes what the storage holds or makes it durable.\<close>

fun is_write :: "eeprom_op \<Rightarrow> bool" where
  "is_write (Write i v) = True"
| "is_write Commit = True"
| "is_write (Open c) = False"
| "is_write (Read i) = False"

section \<open>The checksum\<close>

text \<open>
  \<^verbatim>\<open>
  static uint16_t fletcher16(uint8_t* data, int count) {
     uint16_t sum1 = 0;
     uint16_t sum2 = 0;
     for (int index = 0; index < count; ++index) {
        sum1 = (sum1 + data[index]) % 255;
        sum2 = (sum2 + sum1) % 255;
     }
     return (sum2 << 8) | sum1;
  }
  \<close>
  The operands of \<^verbatim>\<open>+\<close>, \<^verbatim>\<open>%\<close>, \<^verbatim>\<open><<\<close> and \<^verbatim>\<open>|\<close> are promoted to \<^verbatim>\<open>int\<close>; each
  result is converted back to 16 bits where it is assigned or returned.  The promoted values stay
  below \<open>2^17\<close>, so the 32-bit \<^verbatim>\<open>int\<close> never overflows and is modelled by \<open>int\<close>.  The
  caller promises \<open>count\<close> bytes behind \<open>data\<close>; reading past them is undefined in C++, and
  \<open>data ! i\<close> is unspecified there too.
\<close>

function fletcher16_loop ::
  "uint8_t list \<Rightarrow> int \<Rightarrow> int \<Rightarrow> uint16_t \<Rightarrow> uint16_t \<Rightarrow> uint16_t \<times> uint16_t" where
  "fletcher16_loop data count index sum1 sum2 =
     (if index < count then
        (let sum1' = word_of_int ((uint sum1 + uint (data ! nat index)) mod 255);
             sum2' = word_of_int ((uint sum2 + uint sum1') mod 255)
         in fletcher16_loop data count (index + 1) sum1' sum2')
      else (sum1, sum2))"
  by pat_completeness auto
termination
  by (relation "measure (\<lambda>(data, count, index, sum1, sum2). nat (count - index))") auto

declare fletcher16_loop.simps [simp del]

definition fletcher16 :: "uint8_t list \<Rightarrow> int \<Rightarrow> uint16_t" where
  "fletcher16 data count =
     (case fletcher16_loop data count 0 0 0 of
        (sum1, sum2) \<Rightarrow> word_of_int (push_bit 8 (uint sum2) OR uint sum1))"

text \<open>
  The Fletcher-16 reference definition, in the spec's words, on numbers: two running sums from 0,
  for each byte \<open>b\<close> in order \<open>sum1 = (sum1 + b) mod 255\<close> and \<open>sum2 = (sum2 + sum1) mod 255\<close>,
  and the result \<open>(sum2 << 8) | sum1\<close>.
\<close>

fun fletcher16_sums :: "nat list \<Rightarrow> nat \<Rightarrow> nat \<Rightarrow> nat \<times> nat" where
  "fletcher16_sums [] sum1 sum2 = (sum1, sum2)"
| "fletcher16_sums (b # bs) sum1 sum2 =
     fletcher16_sums bs ((sum1 + b) mod 255) ((sum2 + (sum1 + b) mod 255) mod 255)"

definition fletcher16_reference :: "nat list \<Rightarrow> nat" where
  "fletcher16_reference bs =
     (case fletcher16_sums bs 0 0 of (sum1, sum2) \<Rightarrow> push_bit 8 sum2 OR sum1)"

section \<open>The settings store\<close>

text \<open>
  The constructor \<^verbatim>\<open>FlashSettings()\<close> runs after the constructor of \<^verbatim>\<open>T\<close>, which gave the
  user's members their defaults and left the header alone:
  \<^verbatim>\<open>this->m_size = sizeof(T); this->m_checksum = 0xAAAA;\<close>.
  The assignment converts the \<^verbatim>\<open>size_t\<close> to 16 bits.
\<close>

definition FlashSettings :: "T \<Rightarrow> T" where
  "FlashSettings this = this\<lparr>m_size := of_nat (sizeof_T this), m_checksum := 0xAAAA\<rparr>"

text \<open>
  \<^verbatim>\<open>for (unsigned int i = 0; i < sizeof(T); i++) { data[i] = EEPROM.read(i); }\<close>
\<close>

function begin_read_loop ::
  "nat \<Rightarrow> nat \<Rightarrow> uint8_t list \<Rightarrow> eeprom \<Rightarrow> uint8_t list \<times> eeprom" where
  "begin_read_loop n i data E =
     (if i < n then
        (case EEPROM_read E i of (b, E') \<Rightarrow> begin_read_loop n (Suc i) (data[i := b]) E')
      else (data, E))"
  by pat_completeness auto
termination
  by (relation "measure (\<lambda>(n, i, data, E). n - i)") auto

declare begin_read_loop.simps [simp del]

text \<open>
  \<^verbatim>\<open>static_assert(sizeof(T) <= FlashPartitionSize, ...)\<close> in \<^verbatim>\<open>begin()\<close>: a program that
  calls \<^verbatim>\<open>begin()\<close> on a record larger than the partition does not compile.
\<close>

definition static_assert_partition :: "nat \<Rightarrow> T \<Rightarrow> bool" where
  "static_assert_partition FlashPartitionSize this \<longleftrightarrow> sizeof_T this \<le> FlashPartitionSize"

text \<open>
  \<^verbatim>\<open>bool begin()\<close>.  The result is the returned flag, the object afterwards and the storage
  afterwards.  The array \<^verbatim>\<open>uint8_t data[sizeof(T)]\<close> is uninitialised in the source; the loop
  overwrites every byte of it before any is read, and the model starts it from zeros.
  \<^verbatim>\<open>pwTemp[0] != sizeof(T)\<close> compares as \<^verbatim>\<open>size_t\<close>, so the 16-bit value is compared as a
  number.
\<close>

definition FlashSettings_begin :: "nat \<Rightarrow> T \<Rightarrow> eeprom \<Rightarrow> bool \<times> T \<times> eeprom" where
  "FlashSettings_begin FlashPartitionSize this E =
     (case begin_read_loop (sizeof_T this) 0 (replicate (sizeof_T this) 0)
             (EEPROM_begin E FlashPartitionSize) of
        (data, E') \<Rightarrow>
          if unat (pwTemp_get data 0) \<noteq> sizeof_T this then (False, this, E')
          else
            let sum = pwTemp_get data 1;
                data = pwTemp_set data 1 0;
                data = pwTemp_set data 1 (fletcher16 data (int (sizeof_T this)))
            in if pwTemp_get data 1 \<noteq> sum then (False, this, E')
               else (True, memcpy_this data, E'))"

text \<open>
  \<^verbatim>\<open>for (unsigned int i = 0; i < sizeof(T); i++) { EEPROM.write(i, pData[i]); }\<close>
\<close>

function update_write_loop :: "uint8_t list \<Rightarrow> nat \<Rightarrow> nat \<Rightarrow> eeprom \<Rightarrow> eeprom" where
  "update_write_loop bytes n i E =
     (if i < n then update_write_loop bytes n (Suc i) (EEPROM_write E i (bytes ! i)) else E)"
  by pat_completeness auto
termination
  by (relation "measure (\<lambda>(bytes, n, i, E). n - i)") auto

declare update_write_loop.simps [simp del]

text \<open>
  \<^verbatim>\<open>void update()\<close>.  The function returns nothing: the result is the unit value, the object
  afterwards and the storage afterwards.
\<close>

definition FlashSettings_update :: "T \<Rightarrow> eeprom \<Rightarrow> unit \<times> T \<times> eeprom" where
  "FlashSettings_update this E =
     (let old_sum = m_checksum this;
          this = this\<lparr>m_checksum := 0\<rparr>;
          this = this\<lparr>m_checksum := fletcher16 (pData this) (int (sizeof_T this))\<rparr>
      in if old_sum = m_checksum this then ((), this, E)
         else ((), this, EEPROM_commit (update_write_loop (pData this) (sizeof_T this) 0 E)))"

section \<open>Vocabulary of the properties\<close>

text \<open>The three components of what \<^verbatim>\<open>begin()\<close> and \<^verbatim>\<open>update()\<close> leave behind.\<close>

definition begin_result :: "nat \<Rightarrow> T \<Rightarrow> eeprom \<Rightarrow> bool" where
  "begin_result F this E = fst (FlashSettings_begin F this E)"

definition begin_this :: "nat \<Rightarrow> T \<Rightarrow> eeprom \<Rightarrow> T" where
  "begin_this F this E = fst (snd (FlashSettings_begin F this E))"

definition begin_storage :: "nat \<Rightarrow> T \<Rightarrow> eeprom \<Rightarrow> eeprom" where
  "begin_storage F this E = snd (snd (FlashSettings_begin F this E))"

definition update_result :: "T \<Rightarrow> eeprom \<Rightarrow> unit" where
  "update_result this E = fst (FlashSettings_update this E)"

definition update_this :: "T \<Rightarrow> eeprom \<Rightarrow> T" where
  "update_this this E = fst (snd (FlashSettings_update this E))"

definition update_storage :: "T \<Rightarrow> eeprom \<Rightarrow> eeprom" where
  "update_storage this E = snd (snd (FlashSettings_update this E))"

text \<open>
  The checksum \<^verbatim>\<open>update()\<close> computes for an object: \<^verbatim>\<open>fletcher16\<close> over its
  \<^verbatim>\<open>sizeof(T)\<close> bytes with the checksum field set to zero.
\<close>

definition record_checksum :: "T \<Rightarrow> uint16_t" where
  "record_checksum this = fletcher16 (pData (this\<lparr>m_checksum := 0\<rparr>)) (int (sizeof_T this))"

text \<open>The first \<open>n\<close> bytes the storage holds, from offset 0.\<close>

definition stored_image :: "eeprom \<Rightarrow> nat \<Rightarrow> uint8_t list" where
  "stored_image E n = map (cells E) [0..<n]"

text \<open>
  Modelled from the spec: storage that was never written, every byte at the erase value
  \<open>0xFF\<close>, and storage that is all zero; no operation issued yet.
\<close>

definition erased_eeprom :: eeprom where
  "erased_eeprom = \<lparr>cells = (\<lambda>i. 0xFF), trace = []\<rparr>"

definition zeroed_eeprom :: eeprom where
  "zeroed_eeprom = \<lparr>cells = (\<lambda>i. 0), trace = []\<rparr>"

text \<open>
  The objects a program can hold: the store is constructed over a \<open>T\<close> whose members the user's
  constructor set; then \<^verbatim>\<open>begin()\<close> and \<^verbatim>\<open>update()\<close> are called in any order, against
  any storage contents, and between the calls the program assigns to the user's members (the
  bytes of \<open>payload\<close> change, their number does not: the type is fixed).
\<close>

inductive reachable :: "T \<Rightarrow> bool" where
  constructed: "reachable (FlashSettings this)"
| after_begin: "reachable this \<Longrightarrow> reachable (begin_this F this E)"
| after_update: "reachable this \<Longrightarrow> reachable (update_this this E)"
| after_assignment:
    "reachable this \<Longrightarrow> length bytes = length (payload this) \<Longrightarrow>
     reachable (this\<lparr>payload := bytes\<rparr>)"

section \<open>Bytes and 16-bit values\<close>

lemma cat_bytes: "push_bit 8 (ucast (hi_byte w)) OR ucast (lo_byte w) = (w :: uint16_t)"
  unfolding hi_byte_def lo_byte_def
  by (rule bit_word_eqI) (auto simp: bit_simps)

lemma lo_byte_cat: "lo_byte (push_bit 8 (ucast (h :: uint8_t)) OR ucast (l :: uint8_t)) = l"
  unfolding lo_byte_def
  by (rule bit_word_eqI) (auto simp: bit_simps)

lemma hi_byte_cat: "hi_byte (push_bit 8 (ucast (h :: uint8_t)) OR ucast (l :: uint8_t)) = h"
  unfolding hi_byte_def
  by (rule bit_word_eqI) (auto simp: bit_simps dest: bit_imp_le_length)

lemma pwTemp_get_pData_0: "pwTemp_get (pData this) 0 = m_size this"
  by (simp add: pwTemp_get_def pData_def cat_bytes)

lemma pwTemp_get_pData_1: "pwTemp_get (pData this) 1 = m_checksum this"
  by (simp add: pwTemp_get_def pData_def cat_bytes numeral_3_eq_3 numeral_2_eq_2)

lemma pwTemp_set_pData_1: "pwTemp_set (pData this) 1 w = pData (this\<lparr>m_checksum := w\<rparr>)"
  by (simp add: pwTemp_set_def pData_def numeral_3_eq_3 numeral_2_eq_2)

lemma memcpy_this_pData: "memcpy_this (pData this) = this"
  by (cases this) (simp add: memcpy_this_def pwTemp_get_def pData_def cat_bytes numeral_3_eq_3 numeral_2_eq_2)

lemma length_pData: "length (pData this) = sizeof_T this"
  by (simp add: pData_def sizeof_T_def)

lemma length_pwTemp_set: "length (pwTemp_set data k w) = length data"
  by (simp add: pwTemp_set_def)

lemma pwTemp_get_set_1: "4 \<le> length data \<Longrightarrow> pwTemp_get (pwTemp_set data 1 w) 1 = w"
  by (simp add: pwTemp_get_def pwTemp_set_def cat_bytes)

lemma pwTemp_set_set: "pwTemp_set (pwTemp_set data k v) k w = pwTemp_set data k w"
  by (simp add: pwTemp_set_def list_update_swap)

section \<open>The two loops over the storage\<close>

lemma begin_read_loop_eq:
  "i \<le> n \<Longrightarrow> length data = n \<Longrightarrow>
   begin_read_loop n i data E =
     (take i data @ map (cells E) [i..<n], E\<lparr>trace := trace E @ map Read [i..<n]\<rparr>)"
proof (induction n i data E rule: begin_read_loop.induct)
  case (1 n i data E)
  show ?case
  proof (cases "i < n")
    case True
    have step: "begin_read_loop n i data E =
        begin_read_loop n (Suc i) (data[i := cells E i]) (E\<lparr>trace := trace E @ [Read i]\<rparr>)"
      using True by (subst begin_read_loop.simps) (simp add: EEPROM_read_def)
    have ih: "begin_read_loop n (Suc i) (data[i := cells E i]) (E\<lparr>trace := trace E @ [Read i]\<rparr>) =
        (take (Suc i) (data[i := cells E i]) @ map (cells E) [Suc i..<n],
         E\<lparr>trace := trace E @ [Read i] @ map Read [Suc i..<n]\<rparr>)"
      using "1.IH" [OF True, of "cells E i" "E\<lparr>trace := trace E @ [Read i]\<rparr>"] True "1.prems"
      by (simp add: EEPROM_read_def)
    have tk: "take (Suc i) (data[i := cells E i]) = take i data @ [cells E i]"
      using True "1.prems" by (simp add: take_Suc_conv_app_nth)
    show ?thesis
      using True by (simp add: step ih tk upt_conv_Cons)
  next
    case False
    with "1.prems" have "i = n" by simp
    then show ?thesis
      using "1.prems" by (subst begin_read_loop.simps) simp
  qed
qed

lemma update_write_loop_eq:
  "update_write_loop bytes n i E =
     E\<lparr>cells := (\<lambda>j. if i \<le> j \<and> j < n then bytes ! j else cells E j),
       trace := trace E @ map (\<lambda>j. Write j (bytes ! j)) [i..<n]\<rparr>"
proof (induction bytes n i E rule: update_write_loop.induct)
  case (1 bytes n i E)
  show ?case
  proof (cases "i < n")
    case True
    have cellseq: "(\<lambda>j. if Suc i \<le> j \<and> j < n then bytes ! j
                         else cells (EEPROM_write E i (bytes ! i)) j) =
          (\<lambda>j. if i \<le> j \<and> j < n then bytes ! j else cells E j)"
      using True by (auto simp: fun_eq_iff EEPROM_write_def)
    show ?thesis
      using True "1.IH" [OF True]
      by (subst update_write_loop.simps) (simp add: EEPROM_write_def cellseq upt_conv_Cons)
  next
    case False
    then have "(\<lambda>j. if i \<le> j \<and> j < n then bytes ! j else cells E j) = cells E"
      by (auto simp: fun_eq_iff)
    with False show ?thesis
      by (subst update_write_loop.simps) simp
  qed
qed

section \<open>Arithmetic of the checksum\<close>

lemma or_shift8_nat: "a < 256 \<Longrightarrow> push_bit 8 b OR a = 256 * b + (a :: nat)"
proof -
  assume a: "a < 256"
  have "push_bit 8 b + a = push_bit 8 b OR a"
  proof (rule disjunctive_add)
    fix n
    show "\<not> bit (push_bit 8 b) n \<or> \<not> bit a n"
    proof (cases "n < 8")
      case True
      then show ?thesis by (simp add: bit_push_bit_iff)
    next
      case False
      then have "(2::nat) ^ 8 \<le> 2 ^ n"
        by (intro power_increasing) simp_all
      with a have "a < 2 ^ n"
        by simp
      then have "\<not> bit a n"
        by (simp add: bit_iff_odd)
      then show ?thesis by simp
    qed
  qed
  then show ?thesis by (simp add: push_bit_eq_mult)
qed

lemma unat_sum_step:
  "unat (word_of_int ((uint (a :: uint16_t) + uint (b :: 'a :: len word)) mod 255) :: uint16_t)
     = (unat a + unat b) mod 255"
proof -
  have "(uint a + uint b) mod 255 = int ((unat a + unat b) mod 255)"
    by (simp add: zmod_int)
  moreover have "(unat a + unat b) mod 255 < 2 ^ LENGTH(16)"
    using mod_less_divisor [of 255 "unat a + unat b"] by simp
  ultimately show ?thesis
    by (simp add: unat_of_nat del: of_nat_add of_nat_mod)
qed

lemma unat_result:
  assumes "unat (s1 :: uint16_t) < 255" "unat (s2 :: uint16_t) < 255"
  shows "unat (word_of_int (push_bit 8 (uint s2) OR uint s1) :: uint16_t) = 256 * unat s2 + unat s1"
proof -
  have "push_bit 8 (uint s2) OR uint s1 = int (push_bit 8 (unat s2) OR unat s1)"
    by (simp add: of_nat_or_eq of_nat_push_bit)
  also have "\<dots> = int (256 * unat s2 + unat s1)"
    using assms by (simp add: or_shift8_nat)
  finally have "word_of_int (push_bit 8 (uint s2) OR uint s1) = (of_nat (256 * unat s2 + unat s1) :: uint16_t)"
    by (simp del: of_nat_add of_nat_mult)
  moreover have "256 * unat s2 + unat s1 < 2 ^ LENGTH(16)"
    using assms by simp
  ultimately show ?thesis
    by (simp add: unat_of_nat del: of_nat_add of_nat_mult)
qed

lemma fletcher16_loop_bounded:
  "unat sum1 < 255 \<Longrightarrow> unat sum2 < 255 \<Longrightarrow>
   unat (fst (fletcher16_loop data count index sum1 sum2)) < 255 \<and>
   unat (snd (fletcher16_loop data count index sum1 sum2)) < 255"
proof (induction data count index sum1 sum2 rule: fletcher16_loop.induct)
  case (1 data count index sum1 sum2)
  show ?case
  proof (cases "index < count")
    case True
    define s1 :: uint16_t where "s1 = word_of_int ((uint sum1 + uint (data ! nat index)) mod 255)"
    define s2 :: uint16_t where "s2 = word_of_int ((uint sum2 + uint s1) mod 255)"
    have b1: "unat s1 < 255"
      unfolding s1_def by (simp add: unat_sum_step)
    have b2: "unat s2 < 255"
      unfolding s2_def by (simp add: unat_sum_step)
    have "fletcher16_loop data count index sum1 sum2 = fletcher16_loop data count (index + 1) s1 s2"
      using True by (subst fletcher16_loop.simps) (simp add: s1_def s2_def Let_def)
    then show ?thesis
      using "1.IH" [OF True s1_def s2_def b1 b2] by simp
  next
    case False
    then show ?thesis
      using "1.prems" by (subst (1 2) fletcher16_loop.simps) simp
  qed
qed

lemma fletcher16_loop_sums:
  "0 \<le> index \<Longrightarrow> count \<le> int (length data) \<Longrightarrow>
   (case fletcher16_loop data count index sum1 sum2 of (a, b) \<Rightarrow> (unat a, unat b)) =
     fletcher16_sums (map unat (drop (nat index) (take (nat count) data))) (unat sum1) (unat sum2)"
proof (induction data count index sum1 sum2 rule: fletcher16_loop.induct)
  case (1 data count index sum1 sum2)
  show ?case
  proof (cases "index < count")
    case True
    define s1 :: uint16_t where "s1 = word_of_int ((uint sum1 + uint (data ! nat index)) mod 255)"
    define s2 :: uint16_t where "s2 = word_of_int ((uint sum2 + uint s1) mod 255)"
    have u1: "unat s1 = (unat sum1 + unat (data ! nat index)) mod 255"
      unfolding s1_def by (simp only: unat_sum_step)
    have u2: "unat s2 = (unat sum2 + unat s1) mod 255"
      unfolding s2_def by (simp only: unat_sum_step)
    have step: "fletcher16_loop data count index sum1 sum2 = fletcher16_loop data count (index + 1) s1 s2"
      using True by (subst fletcher16_loop.simps) (simp add: s1_def s2_def Let_def)
    have inr: "nat index < length (take (nat count) data)"
      using True "1.prems" by simp
    have "drop (nat index) (take (nat count) data) =
            take (nat count) data ! nat index # drop (Suc (nat index)) (take (nat count) data)"
      using Cons_nth_drop_Suc [OF inr] by simp
    moreover have "take (nat count) data ! nat index = data ! nat index"
      using True "1.prems" by simp
    moreover have "Suc (nat index) = nat (index + 1)"
      using "1.prems" by simp
    ultimately have dr: "drop (nat index) (take (nat count) data) =
            data ! nat index # drop (nat (index + 1)) (take (nat count) data)"
      by simp
    have "0 \<le> index + 1" using "1.prems" by simp
    from "1.IH" [OF True s1_def s2_def this "1.prems"(2)]
    show ?thesis
      by (simp add: step dr u1 u2)
  next
    case False
    then have "drop (nat index) (take (nat count) data) = []"
      by simp
    with False show ?thesis
      by (subst fletcher16_loop.simps) simp
  qed
qed

lemma fletcher16_sums_bounded:
  "sum1 < 255 \<Longrightarrow> sum2 < 255 \<Longrightarrow>
   fst (fletcher16_sums bs sum1 sum2) < 255 \<and> snd (fletcher16_sums bs sum1 sum2) < 255"
  by (induction bs arbitrary: sum1 sum2) simp_all

lemma fletcher16_sums_fst:
  "fst (fletcher16_sums bs sum1 sum2) = (if bs = [] then sum1 else (sum1 + sum_list bs) mod 255)"
proof (induction bs arbitrary: sum1 sum2)
  case Nil
  then show ?case by simp
next
  case (Cons b bs)
  show ?case
    by (simp add: Cons.IH mod_add_left_eq add.assoc)
qed

lemma unat_fletcher16:
  "unat (fletcher16 data (int (length data))) = fletcher16_reference (map unat data)"
proof -
  obtain a b where ab: "fletcher16_loop data (int (length data)) 0 0 0 = (a, b)"
    by (cases "fletcher16_loop data (int (length data)) 0 0 0")
  have sums: "fletcher16_sums (map unat data) 0 0 = (unat a, unat b)"
    using fletcher16_loop_sums [of 0 "int (length data)" data 0 0] ab by simp
  have bnd: "unat a < 255 \<and> unat b < 255"
    using fletcher16_loop_bounded [of 0 0 data "int (length data)" 0] ab by simp
  show ?thesis
    using bnd by (simp add: fletcher16_def fletcher16_reference_def ab sums unat_result or_shift8_nat)
qed

lemma unat_fletcher16_split:
  "\<exists>a b. a < 255 \<and> b < 255 \<and> unat (fletcher16 data count) = 256 * b + a"
proof -
  obtain s1 s2 where ab: "fletcher16_loop data count 0 0 0 = (s1, s2)"
    by (cases "fletcher16_loop data count 0 0 0")
  have bnd: "unat s1 < 255" "unat s2 < 255"
    using fletcher16_loop_bounded [of 0 0 data count 0] ab by simp_all
  have "unat (fletcher16 data count) = 256 * unat s2 + unat s1"
    using bnd by (simp add: fletcher16_def ab unat_result)
  with bnd show ?thesis by blast
qed

section \<open>What begin() and update() compute\<close>

lemma sizeof_T_ge4: "4 \<le> sizeof_T this"
  by (simp add: sizeof_T_def)

lemma sizeof_T_update:
  "sizeof_T (this\<lparr>m_checksum := c\<rparr>) = sizeof_T this"
  "sizeof_T (this\<lparr>m_size := s\<rparr>) = sizeof_T this"
  by (simp_all add: sizeof_T_def)

lemma length_stored_image: "length (stored_image E n) = n"
  by (simp add: stored_image_def)

lemma pwTemp_set_get_1: "4 \<le> length data \<Longrightarrow> pwTemp_set data 1 (pwTemp_get data 1) = data"
  by (simp add: pwTemp_set_def pwTemp_get_def lo_byte_cat hi_byte_cat)

lemma begin_read_loop_all:
  "begin_read_loop n 0 (replicate n 0) E =
     (stored_image E n, E\<lparr>trace := trace E @ map Read [0..<n]\<rparr>)"
  by (simp add: begin_read_loop_eq stored_image_def)

lemma FlashSettings_begin_eq:
  "FlashSettings_begin F this E =
     (if unat (pwTemp_get (stored_image E (sizeof_T this)) 0) \<noteq> sizeof_T this
         \<or> fletcher16 (pwTemp_set (stored_image E (sizeof_T this)) 1 0) (int (sizeof_T this))
               \<noteq> pwTemp_get (stored_image E (sizeof_T this)) 1
      then (False, this, E\<lparr>trace := trace E @ Open F # map Read [0..<sizeof_T this]\<rparr>)
      else (True, memcpy_this (stored_image E (sizeof_T this)),
            E\<lparr>trace := trace E @ Open F # map Read [0..<sizeof_T this]\<rparr>))"
proof -
  let ?n = "sizeof_T this"
  let ?d = "stored_image E ?n"
  have len: "4 \<le> length ?d" "4 \<le> length (pwTemp_set ?d 1 0)"
    using sizeof_T_ge4 [of this] by (simp_all add: length_stored_image length_pwTemp_set)
  have rd: "begin_read_loop ?n 0 (replicate ?n 0) (EEPROM_begin E F) =
      (?d, E\<lparr>trace := trace E @ Open F # map Read [0..<sizeof_T this]\<rparr>)"
    by (simp add: begin_read_loop_all EEPROM_begin_def stored_image_def)
  have same: "fletcher16 (pwTemp_set ?d 1 0) (int ?n) = pwTemp_get ?d 1 \<Longrightarrow>
      pwTemp_set (pwTemp_set ?d 1 0) 1 (fletcher16 (pwTemp_set ?d 1 0) (int ?n)) = ?d"
    using len by (simp add: pwTemp_set_set pwTemp_set_get_1 del: One_nat_def)
  show ?thesis
    unfolding FlashSettings_begin_def rd
    using len same by (auto simp add: Let_def pwTemp_get_set_1 simp del: One_nat_def)
qed

lemma FlashSettings_update_eq:
  "FlashSettings_update this E =
     ((), this\<lparr>m_checksum := fletcher16 (pData (this\<lparr>m_checksum := 0\<rparr>)) (int (sizeof_T this))\<rparr>,
      if m_checksum this = fletcher16 (pData (this\<lparr>m_checksum := 0\<rparr>)) (int (sizeof_T this)) then E
      else E\<lparr>cells := (\<lambda>j. if j < sizeof_T this
                           then pData (this\<lparr>m_checksum :=
                                  fletcher16 (pData (this\<lparr>m_checksum := 0\<rparr>)) (int (sizeof_T this))\<rparr>) ! j
                           else cells E j),
             trace := trace E @
               map (\<lambda>j. Write j (pData (this\<lparr>m_checksum :=
                                  fletcher16 (pData (this\<lparr>m_checksum := 0\<rparr>)) (int (sizeof_T this))\<rparr>) ! j))
                 [0..<sizeof_T this] @ [Commit]\<rparr>)"
  by (simp add: FlashSettings_update_def Let_def update_write_loop_eq EEPROM_commit_def sizeof_T_update)

lemma stored_image_const: "\<forall>i. cells E i = v \<Longrightarrow> stored_image E n = replicate n v"
  by (auto simp add: stored_image_def list_eq_iff_nth_eq)

section \<open>The checksum function\<close>

text \<open>
  C4.  \<^verbatim>\<open>fletcher16\<close> over a buffer of \<open>count\<close> bytes is the Fletcher-16 reference: read as a
  number, the returned 16-bit value is what the reference definition computes from the bytes read
  as numbers.  Over the two bytes \<open>0x01, 0x02\<close> it returns \<open>0x0403\<close>, and over no bytes
  \<open>0x0000\<close>.
\<close>

theorem fletcher16_refines_reference:
  "unat (fletcher16 data (int (length data))) = fletcher16_reference (map unat data)
   \<and> fletcher16 [0x01, 0x02] 2 = 0x0403
   \<and> fletcher16 [] 0 = 0x0000"
proof -
  have v1: "fletcher16 [0x01, 0x02] 2 = 0x0403"
    by code_simp
  have v2: "fletcher16 [] 0 = 0x0000"
    by code_simp
  show ?thesis
    using unat_fletcher16 [of data] v1 v2 by simp
qed

text \<open>
  C10.  Whatever the buffer and the count, the high byte and the low byte of the value
  \<^verbatim>\<open>fletcher16\<close> returns are at most 254, so the value is never \<open>0xFFFF\<close>; the checksum field
  read back from a buffer of erased bytes (all \<open>0xFF\<close>) is \<open>0xFFFF\<close> and therefore differs from
  every checksum the function computes.
\<close>

theorem fletcher16_bytes_below_255:
  "unat (drop_bit 8 (fletcher16 data count)) \<le> 254
   \<and> unat (fletcher16 data count AND 0xFF) \<le> 254
   \<and> fletcher16 data count \<noteq> 0xFFFF
   \<and> pwTemp_get (replicate (4 + n) 0xFF) 1 \<noteq> fletcher16 data count"
proof -
  obtain a b where ab: "a < 255" "b < 255" "unat (fletcher16 data count) = 256 * b + a"
    using unat_fletcher16_split by blast
  have "unat (drop_bit 8 (fletcher16 data count)) = drop_bit 8 (unat (fletcher16 data count))"
    by (rule unat_drop_bit_eq)
  also have "\<dots> = (256 * b + a) div 256"
    by (simp only: ab drop_bit_eq_div) simp
  finally have hi: "unat (drop_bit 8 (fletcher16 data count)) = b"
    using ab by simp
  have "fletcher16 data count AND 0xFF = take_bit 8 (fletcher16 data count)"
    using take_bit_eq_mask [of 8 "fletcher16 data count"] by (simp add: mask_eq_exp_minus_1)
  then have "unat (fletcher16 data count AND 0xFF) = take_bit 8 (unat (fletcher16 data count))"
    by (simp only: unsigned_take_bit_eq)
  also have "\<dots> = (256 * b + a) mod 256"
    by (simp only: ab take_bit_eq_mod) simp
  finally have lo: "unat (fletcher16 data count AND 0xFF) = a"
    using ab by simp
  have ne: "fletcher16 data count \<noteq> 0xFFFF"
  proof
    assume "fletcher16 data count = 0xFFFF"
    then have "unat (fletcher16 data count) = 65535" by simp
    with ab show False by simp
  qed
  have "pwTemp_get (replicate (4 + n) 0xFF) 1 = 0xFFFF"
    by (simp add: pwTemp_get_def)
  with hi lo ne ab show ?thesis by simp
qed

section \<open>Loading: begin()\<close>

text \<open>
  C3.  When the size field held by the storage is not \<^verbatim>\<open>sizeof(T)\<close>, or it is and the checksum
  recomputed over the bytes read, with the checksum field zeroed, is not the stored checksum,
  \<^verbatim>\<open>begin()\<close> returns false and the caller's object, header and payload, is what it was.
\<close>

theorem begin_failure_leaves_record:
  assumes "unat (pwTemp_get (stored_image E (sizeof_T this)) 0) \<noteq> sizeof_T this
           \<or> (unat (pwTemp_get (stored_image E (sizeof_T this)) 0) = sizeof_T this
              \<and> fletcher16 (pwTemp_set (stored_image E (sizeof_T this)) 1 0) (int (sizeof_T this))
                  \<noteq> pwTemp_get (stored_image E (sizeof_T this)) 1)"
  shows "begin_result F this E = False \<and> begin_this F this E = this"
  using assms by (auto simp add: begin_result_def begin_this_def FlashSettings_begin_eq)

text \<open>
  Both ways to fail, on a record of six bytes: erased storage, whose size field reads 65535; and
  storage written by \<^verbatim>\<open>update()\<close> in which one payload byte was changed afterwards, so that the
  size field matches and the checksum does not.
\<close>

theorem begin_failure_leaves_record_witness:
  "unat (pwTemp_get (stored_image erased_eeprom
           (sizeof_T (FlashSettings \<lparr>m_size = 0, m_checksum = 0, payload = [1, 2]\<rparr>))) 0)
     \<noteq> sizeof_T (FlashSettings \<lparr>m_size = 0, m_checksum = 0, payload = [1, 2]\<rparr>)
   \<and> begin_result 512 (FlashSettings \<lparr>m_size = 0, m_checksum = 0, payload = [1, 2]\<rparr>)
         erased_eeprom = False
   \<and> begin_this 512 (FlashSettings \<lparr>m_size = 0, m_checksum = 0, payload = [1, 2]\<rparr>)
         erased_eeprom = FlashSettings \<lparr>m_size = 0, m_checksum = 0, payload = [1, 2]\<rparr>
   \<and> unat (pwTemp_get (stored_image
           (update_storage (FlashSettings \<lparr>m_size = 0, m_checksum = 0, payload = [1, 2]\<rparr>)
              erased_eeprom
            \<lparr>cells := (cells (update_storage
                 (FlashSettings \<lparr>m_size = 0, m_checksum = 0, payload = [1, 2]\<rparr>)
                 erased_eeprom))(5 := 3)\<rparr>)
           (sizeof_T (FlashSettings \<lparr>m_size = 0, m_checksum = 0, payload = [7, 7]\<rparr>))) 0)
     = sizeof_T (FlashSettings \<lparr>m_size = 0, m_checksum = 0, payload = [7, 7]\<rparr>)
   \<and> begin_result 512 (FlashSettings \<lparr>m_size = 0, m_checksum = 0, payload = [7, 7]\<rparr>)
         (update_storage (FlashSettings \<lparr>m_size = 0, m_checksum = 0, payload = [1, 2]\<rparr>)
              erased_eeprom
            \<lparr>cells := (cells (update_storage
                 (FlashSettings \<lparr>m_size = 0, m_checksum = 0, payload = [1, 2]\<rparr>)
                 erased_eeprom))(5 := 3)\<rparr>) = False
   \<and> begin_this 512 (FlashSettings \<lparr>m_size = 0, m_checksum = 0, payload = [7, 7]\<rparr>)
         (update_storage (FlashSettings \<lparr>m_size = 0, m_checksum = 0, payload = [1, 2]\<rparr>)
              erased_eeprom
            \<lparr>cells := (cells (update_storage
                 (FlashSettings \<lparr>m_size = 0, m_checksum = 0, payload = [1, 2]\<rparr>)
                 erased_eeprom))(5 := 3)\<rparr>)
       = FlashSettings \<lparr>m_size = 0, m_checksum = 0, payload = [7, 7]\<rparr>"
proof -
  let ?fresh = "FlashSettings \<lparr>m_size = 0, m_checksum = 0, payload = [1, 2]\<rparr>"
  let ?other = "FlashSettings \<lparr>m_size = 0, m_checksum = 0, payload = [7, 7]\<rparr>"
  let ?bad = "update_storage ?fresh erased_eeprom
                \<lparr>cells := (cells (update_storage ?fresh erased_eeprom))(5 := 3)\<rparr>"
  have drift: "unat (pwTemp_get (stored_image erased_eeprom (sizeof_T ?fresh)) 0) \<noteq> sizeof_T ?fresh"
    by (simp add: stored_image_def erased_eeprom_def sizeof_T_def FlashSettings_def pwTemp_get_def)
  have size_ok: "unat (pwTemp_get (stored_image ?bad (sizeof_T ?other)) 0) = sizeof_T ?other"
    by code_simp
  have corrupt: "fletcher16 (pwTemp_set (stored_image ?bad (sizeof_T ?other)) 1 0)
                   (int (sizeof_T ?other)) \<noteq> pwTemp_get (stored_image ?bad (sizeof_T ?other)) 1"
    by code_simp
  show ?thesis
    using begin_failure_leaves_record [of erased_eeprom ?fresh 512]
      begin_failure_leaves_record [of ?bad ?other 512] drift size_ok corrupt
    by blast
qed

text \<open>
  C9.  \<^verbatim>\<open>begin()\<close> never writes to the storage: the bytes it holds afterwards are the bytes it
  held before, the operations issued are the one that opens the partition and one read per byte
  of the record, none of them a write or a commit, and the object is changed only when
  \<^verbatim>\<open>begin()\<close> returns true.
\<close>

theorem begin_never_writes:
  "cells (begin_storage F this E) = cells E
   \<and> trace (begin_storage F this E) = trace E @ Open F # map Read [0..<sizeof_T this]
   \<and> filter is_write (trace (begin_storage F this E)) = filter is_write (trace E)
   \<and> (begin_result F this E \<or> begin_this F this E = this)"
  by (simp add: begin_storage_def begin_result_def begin_this_def FlashSettings_begin_eq filter_empty_conv)

theorem begin_never_writes_witness:
  "cells (begin_storage 512 (FlashSettings \<lparr>m_size = 0, m_checksum = 0, payload = [1, 2]\<rparr>)
            erased_eeprom) = cells erased_eeprom
   \<and> trace (begin_storage 512 (FlashSettings \<lparr>m_size = 0, m_checksum = 0, payload = [1, 2]\<rparr>)
            erased_eeprom)
       = [Open 512, Read 0, Read 1, Read 2, Read 3, Read 4, Read 5]
   \<and> begin_this 512 (FlashSettings \<lparr>m_size = 0, m_checksum = 0, payload = [1, 2]\<rparr>)
         erased_eeprom = FlashSettings \<lparr>m_size = 0, m_checksum = 0, payload = [1, 2]\<rparr>"
proof -
  let ?fresh = "FlashSettings \<lparr>m_size = 0, m_checksum = 0, payload = [1, 2]\<rparr>"
  have "unat (pwTemp_get (stored_image erased_eeprom (sizeof_T ?fresh)) 0) \<noteq> sizeof_T ?fresh"
    by (simp add: stored_image_def erased_eeprom_def sizeof_T_def FlashSettings_def pwTemp_get_def)
  then have "\<not> begin_result 512 ?fresh erased_eeprom"
    by (simp add: begin_result_def FlashSettings_begin_eq)
  moreover have "trace erased_eeprom @ Open 512 # map Read [0..<sizeof_T ?fresh]
      = [Open 512, Read 0, Read 1, Read 2, Read 3, Read 4, Read 5]"
    by code_simp
  ultimately show ?thesis
    using begin_never_writes [of 512 ?fresh erased_eeprom] by simp
qed

text \<open>
  C6.  For a record that fits the partition, \<^verbatim>\<open>begin()\<close> against storage whose every byte is
  the erase value \<open>0xFF\<close>, or whose every byte is zero, returns false and leaves the object as
  the constructor made it.
\<close>

theorem begin_on_blank_storage:
  assumes "static_assert_partition F (FlashSettings this)"
      and "(\<forall>i. cells E i = 0xFF) \<or> (\<forall>i. cells E i = 0)"
  shows "begin_result F (FlashSettings this) E = False
         \<and> begin_this F (FlashSettings this) E = FlashSettings this"
proof -
  let ?n = "sizeof_T (FlashSettings this)"
  obtain k where k: "?n = 4 + k"
    by (simp add: sizeof_T_def)
  from assms(2) show ?thesis
  proof
    assume "\<forall>i. cells E i = 0xFF"
    then have img: "stored_image E ?n = replicate (4 + k) 0xFF"
      using k by (simp add: stored_image_const)
    have "fletcher16 (pwTemp_set (stored_image E ?n) 1 0) (int ?n) \<noteq> pwTemp_get (stored_image E ?n) 1"
      unfolding img using unat_fletcher16_split [of "pwTemp_set (replicate (4 + k) 0xFF) 1 0" "int ?n"]
      by (auto simp add: pwTemp_get_def)
    then show ?thesis
      by (auto simp add: begin_result_def begin_this_def FlashSettings_begin_eq)
  next
    assume "\<forall>i. cells E i = 0"
    then have img: "stored_image E ?n = replicate (4 + k) 0"
      using k by (simp add: stored_image_const)
    have "unat (pwTemp_get (stored_image E ?n) 0) \<noteq> ?n"
      unfolding img using k by (simp add: pwTemp_get_def)
    then show ?thesis
      by (auto simp add: begin_result_def begin_this_def FlashSettings_begin_eq)
  qed
qed

theorem begin_on_blank_storage_witness:
  "static_assert_partition 512 (FlashSettings \<lparr>m_size = 0, m_checksum = 0, payload = [1, 2]\<rparr>)
   \<and> (\<forall>i. cells erased_eeprom i = 0xFF)
   \<and> begin_result 512 (FlashSettings \<lparr>m_size = 0, m_checksum = 0, payload = [1, 2]\<rparr>)
         erased_eeprom = False
   \<and> begin_this 512 (FlashSettings \<lparr>m_size = 0, m_checksum = 0, payload = [1, 2]\<rparr>)
         erased_eeprom = FlashSettings \<lparr>m_size = 0, m_checksum = 0, payload = [1, 2]\<rparr>
   \<and> (\<forall>i. cells zeroed_eeprom i = 0)
   \<and> begin_result 512 (FlashSettings \<lparr>m_size = 0, m_checksum = 0, payload = [1, 2]\<rparr>)
         zeroed_eeprom = False
   \<and> begin_this 512 (FlashSettings \<lparr>m_size = 0, m_checksum = 0, payload = [1, 2]\<rparr>)
         zeroed_eeprom = FlashSettings \<lparr>m_size = 0, m_checksum = 0, payload = [1, 2]\<rparr>"
proof -
  let ?fresh = "FlashSettings \<lparr>m_size = 0, m_checksum = 0, payload = [1, 2]\<rparr>"
  have fits: "static_assert_partition 512 ?fresh"
    by (simp add: static_assert_partition_def sizeof_T_def FlashSettings_def)
  have erased: "\<forall>i. cells erased_eeprom i = 0xFF"
    by (simp add: erased_eeprom_def)
  have zeroed: "\<forall>i. cells zeroed_eeprom i = 0"
    by (simp add: zeroed_eeprom_def)
  show ?thesis
    using begin_on_blank_storage [of 512 "\<lparr>m_size = 0, m_checksum = 0, payload = [1, 2]\<rparr>" erased_eeprom]
      begin_on_blank_storage [of 512 "\<lparr>m_size = 0, m_checksum = 0, payload = [1, 2]\<rparr>" zeroed_eeprom]
      fits erased zeroed
    by blast
qed

section \<open>Saving: update()\<close>

lemma update_this_eq: "update_this this E = this\<lparr>m_checksum := record_checksum this\<rparr>"
  by (simp add: update_this_def FlashSettings_update_eq record_checksum_def)

lemma update_storage_eq:
  "update_storage this E =
     (if m_checksum this = record_checksum this then E
      else E\<lparr>cells := (\<lambda>j. if j < sizeof_T this then pData (update_this this E) ! j else cells E j),
             trace := trace E @ map (\<lambda>j. Write j (pData (update_this this E) ! j)) [0..<sizeof_T this]
                        @ [Commit]\<rparr>)"
  unfolding update_this_eq update_storage_def FlashSettings_update_eq record_checksum_def
  by simp

lemma record_checksum_update [simp]:
  "record_checksum (this\<lparr>m_checksum := c\<rparr>) = record_checksum this"
  by (simp add: record_checksum_def sizeof_T_update)

lemma sizeof_T_FlashSettings [simp]: "sizeof_T (FlashSettings this) = sizeof_T this"
  by (simp add: FlashSettings_def sizeof_T_def)

lemma sizeof_T_update_this [simp]: "sizeof_T (update_this this E) = sizeof_T this"
  by (simp add: update_this_eq sizeof_T_update)

lemma sizeof_T_memcpy_this: "4 \<le> length data \<Longrightarrow> sizeof_T (memcpy_this data) = length data"
  by (simp add: sizeof_T_def memcpy_this_def)

lemma begin_this_cases:
  "begin_this F this E = this \<or>
   (begin_this F this E = memcpy_this (stored_image E (sizeof_T this))
    \<and> unat (pwTemp_get (stored_image E (sizeof_T this)) 0) = sizeof_T this)"
  by (simp add: begin_this_def FlashSettings_begin_eq)

lemma reachable_m_size: "reachable this \<Longrightarrow> m_size this = of_nat (sizeof_T this)"
proof (induction rule: reachable.induct)
  case (constructed this)
  show ?case by (simp add: FlashSettings_def sizeof_T_def)
next
  case (after_begin this F E)
  let ?d = "stored_image E (sizeof_T this)"
  from begin_this_cases [of F this E] show ?case
  proof
    assume "begin_this F this E = this"
    with after_begin.IH show ?thesis by simp
  next
    assume loaded: "begin_this F this E = memcpy_this ?d \<and> unat (pwTemp_get ?d 0) = sizeof_T this"
    have "4 \<le> length ?d"
      using sizeof_T_ge4 [of this] by (simp add: length_stored_image)
    then have "sizeof_T (memcpy_this ?d) = sizeof_T this"
      by (simp add: sizeof_T_memcpy_this length_stored_image)
    moreover have "m_size (memcpy_this ?d) = pwTemp_get ?d 0"
      by (simp add: memcpy_this_def)
    moreover have "of_nat (unat (pwTemp_get ?d 0)) = pwTemp_get ?d 0"
      by simp
    ultimately show ?thesis
      using loaded by simp
  qed
next
  case (after_update this E)
  then show ?case by (simp add: update_this_eq sizeof_T_update)
next
  case (after_assignment this bytes)
  then show ?case by (simp add: sizeof_T_def)
qed

lemma update_fixpoint:
  "FlashSettings_update (update_this this E) E' = ((), update_this this E, E')"
proof -
  have "(this\<lparr>m_checksum := record_checksum this\<rparr>)\<lparr>m_checksum := 0\<rparr> = this\<lparr>m_checksum := 0\<rparr>"
    by simp
  then show ?thesis
    unfolding FlashSettings_update_eq update_this_eq
    by (simp add: record_checksum_def sizeof_T_update)
qed

lemma update_again_idle:
  "((\<lambda>(u, this, E). FlashSettings_update this E) ^^ k) ((), update_this this E, E')
     = ((), update_this this E, E')"
  by (induction k) (simp_all add: update_fixpoint)

text \<open>
  C8 (as the code has it).  \<^verbatim>\<open>update()\<close> is declared \<^verbatim>\<open>void\<close>: it returns nothing, and what a
  call did shows only in its effects.  The checksum field receives the checksum of the object.
  When that is the value the field held before, the storage is left as it was and no operation is
  issued; otherwise every byte of the object is written, from offset 0 on, and one commit follows.
\<close>

theorem update_effect:
  "update_result this E = ()
   \<and> update_this this E = this\<lparr>m_checksum := record_checksum this\<rparr>
   \<and> update_storage this E =
       (if m_checksum this = record_checksum this then E
        else E\<lparr>cells := (\<lambda>j. if j < sizeof_T this then pData (update_this this E) ! j else cells E j),
               trace := trace E @ map (\<lambda>j. Write j (pData (update_this this E) ! j)) [0..<sizeof_T this]
                          @ [Commit]\<rparr>)"
  using update_this_eq [of this E] update_storage_eq [of this E] by simp

text \<open>
  C8 as stated does not hold: a first \<^verbatim>\<open>update()\<close> of a five-byte record against erased
  storage writes five bytes and commits, a second one right after it touches nothing, and the two
  calls hand the same (unit) value to the caller.
\<close>

theorem update_returns_nothing_counterexample:
  "update_result (FlashSettings \<lparr>m_size = 0, m_checksum = 0, payload = [0]\<rparr>) erased_eeprom
     = update_result
         (update_this (FlashSettings \<lparr>m_size = 0, m_checksum = 0, payload = [0]\<rparr>) erased_eeprom)
         (update_storage (FlashSettings \<lparr>m_size = 0, m_checksum = 0, payload = [0]\<rparr>) erased_eeprom)
   \<and> trace (update_storage (FlashSettings \<lparr>m_size = 0, m_checksum = 0, payload = [0]\<rparr>) erased_eeprom)
     = [Write 0 0x05, Write 1 0x00, Write 2 0x05, Write 3 0x19, Write 4 0x00, Commit]
   \<and> trace (update_storage
         (update_this (FlashSettings \<lparr>m_size = 0, m_checksum = 0, payload = [0]\<rparr>) erased_eeprom)
         (update_storage (FlashSettings \<lparr>m_size = 0, m_checksum = 0, payload = [0]\<rparr>) erased_eeprom))
     = trace (update_storage (FlashSettings \<lparr>m_size = 0, m_checksum = 0, payload = [0]\<rparr>) erased_eeprom)"
proof -
  let ?fresh = "FlashSettings \<lparr>m_size = 0, m_checksum = 0, payload = [0]\<rparr>"
  have written: "trace (update_storage ?fresh erased_eeprom)
      = [Write 0 0x05, Write 1 0x00, Write 2 0x05, Write 3 0x19, Write 4 0x00, Commit]"
    by code_simp
  have "update_storage (update_this ?fresh erased_eeprom) (update_storage ?fresh erased_eeprom)
      = update_storage ?fresh erased_eeprom"
    by (simp add: update_storage_def [of "update_this ?fresh erased_eeprom"] update_fixpoint)
  with written show ?thesis
    by simp
qed

text \<open>
  C5 (as the code has it).  The first \<^verbatim>\<open>update()\<close> of a freshly constructed object writes the
  record and commits, unless the checksum of the object is \<open>0xAAAA\<close>, the value the constructor
  put into the checksum field: then it issues no operation.  A second \<^verbatim>\<open>update()\<close> with no
  assignment in between changes neither the object nor the storage, whatever the object and the
  storage were, and so does any number of further calls.
\<close>

theorem update_twice:
  "trace (update_storage (FlashSettings this) E) =
     trace E @
       (if record_checksum (FlashSettings this) = 0xAAAA then []
        else map (\<lambda>j. Write j (pData (update_this (FlashSettings this) E) ! j)) [0..<sizeof_T this]
               @ [Commit])
   \<and> FlashSettings_update (update_this r E) E' = ((), update_this r E, E')
   \<and> ((\<lambda>(u, this, E). FlashSettings_update this E) ^^ k) (FlashSettings_update r E)
       = FlashSettings_update r E"
proof -
  have sentinel: "m_checksum (FlashSettings this) = 0xAAAA"
    by (simp add: FlashSettings_def)
  have first: "trace (update_storage (FlashSettings this) E) =
     trace E @
       (if record_checksum (FlashSettings this) = 0xAAAA then []
        else map (\<lambda>j. Write j (pData (update_this (FlashSettings this) E) ! j)) [0..<sizeof_T this]
               @ [Commit])"
    unfolding update_storage_eq sentinel by auto
  have triple: "FlashSettings_update r E = ((), update_this r E, update_storage r E)"
    by (cases "FlashSettings_update r E") (simp add: update_this_def update_storage_def)
  show ?thesis
    using first update_fixpoint [of r E E'] update_again_idle [of k r E "update_storage r E"]
    by (simp only: triple)
qed

text \<open>
  C5 as stated does not hold: the freshly constructed six-byte record with the payload bytes
  \<open>0xE1, 0xC2\<close> has the checksum \<open>0xAAAA\<close>, so its first \<^verbatim>\<open>update()\<close> issues no write and
  the erased storage stays erased.
\<close>

theorem first_update_of_fresh_record_counterexample:
  "trace (update_storage (FlashSettings \<lparr>m_size = 0, m_checksum = 0, payload = [0xE1, 0xC2]\<rparr>)
            erased_eeprom) = []
   \<and> stored_image (update_storage (FlashSettings \<lparr>m_size = 0, m_checksum = 0, payload = [0xE1, 0xC2]\<rparr>)
            erased_eeprom) 6 = [0xFF, 0xFF, 0xFF, 0xFF, 0xFF, 0xFF]"
  by code_simp

section \<open>The size field\<close>

lemma begin_fails_on_erased:
  "begin_result F this erased_eeprom = False \<and> begin_this F this erased_eeprom = this"
proof -
  obtain k where k: "sizeof_T this = 4 + k"
    by (simp add: sizeof_T_def)
  have "stored_image erased_eeprom (4 + k) = replicate (4 + k) 0xFF"
    by (simp add: stored_image_const erased_eeprom_def)
  then have "fletcher16 (pwTemp_set (stored_image erased_eeprom (4 + k)) 1 0) (int (4 + k))
      \<noteq> pwTemp_get (stored_image erased_eeprom (4 + k)) 1"
    using unat_fletcher16_split [of "pwTemp_set (replicate (4 + k) 0xFF) 1 0" "int (4 + k)"]
    by (auto simp add: pwTemp_get_def)
  then show ?thesis
    unfolding begin_this_def begin_result_def FlashSettings_begin_eq k by simp
qed

text \<open>
  C7 (as the code has it).  In every object reachable from the constructor by \<^verbatim>\<open>begin()\<close>,
  \<^verbatim>\<open>update()\<close> and assignments to the user's members, the size field holds \<^verbatim>\<open>sizeof(T)\<close>
  as the assignment to a \<^verbatim>\<open>uint16_t\<close> leaves it, that is, modulo \<open>2^16\<close>; it equals
  \<^verbatim>\<open>sizeof(T)\<close> for every record of fewer than 65536 bytes.
\<close>

theorem size_field_invariant:
  assumes "reachable this"
  shows "unat (m_size this) = sizeof_T this mod 2 ^ 16
         \<and> (sizeof_T this < 2 ^ 16 \<longrightarrow> unat (m_size this) = sizeof_T this)"
proof -
  have "m_size this = of_nat (sizeof_T this)"
    using assms by (rule reachable_m_size)
  then have "unat (m_size this) = sizeof_T this mod 2 ^ 16"
    by (simp add: unat_of_nat)
  then show ?thesis
    by simp
qed

theorem size_field_invariant_witness:
  "reachable (update_this
      ((begin_this 512 (FlashSettings \<lparr>m_size = 0, m_checksum = 0, payload = [1, 2]\<rparr>) erased_eeprom)
         \<lparr>payload := [3, 4]\<rparr>) erased_eeprom)
   \<and> sizeof_T (update_this
      ((begin_this 512 (FlashSettings \<lparr>m_size = 0, m_checksum = 0, payload = [1, 2]\<rparr>) erased_eeprom)
         \<lparr>payload := [3, 4]\<rparr>) erased_eeprom) < 2 ^ 16
   \<and> unat (m_size (update_this
      ((begin_this 512 (FlashSettings \<lparr>m_size = 0, m_checksum = 0, payload = [1, 2]\<rparr>) erased_eeprom)
         \<lparr>payload := [3, 4]\<rparr>) erased_eeprom)) = 6"
proof -
  let ?fresh = "FlashSettings \<lparr>m_size = 0, m_checksum = 0, payload = [1, 2]\<rparr>"
  let ?loaded = "begin_this 512 ?fresh erased_eeprom"
  have "reachable ?loaded"
    by (intro reachable.intros)
  moreover have "length [3, 4 :: uint8_t] = length (payload ?loaded)"
    by (simp add: begin_fails_on_erased) (simp add: FlashSettings_def)
  ultimately have "reachable (?loaded\<lparr>payload := [3, 4]\<rparr>)"
    by (rule after_assignment)
  then have r: "reachable (update_this (?loaded\<lparr>payload := [3, 4]\<rparr>) erased_eeprom)"
    by (rule after_update)
  have "sizeof_T (?loaded\<lparr>payload := [3, 4]\<rparr>) = 6"
    by (simp add: sizeof_T_def)
  then have s: "sizeof_T (update_this (?loaded\<lparr>payload := [3, 4]\<rparr>) erased_eeprom) = 6"
    by (simp only: sizeof_T_update_this)
  show ?thesis
    using size_field_invariant [OF r] r s by simp
qed

text \<open>
  C7 as stated does not hold: the 16-bit field cannot hold the size of a record of 65536 bytes or
  more.  The store constructed over a record of 65540 bytes, a payload of 65536 bytes behind the
  header, has the size field 4.
\<close>

theorem size_field_invariant_counterexample:
  "reachable (FlashSettings \<lparr>m_size = 0, m_checksum = 0, payload = replicate 65536 0\<rparr>)
   \<and> sizeof_T (FlashSettings \<lparr>m_size = 0, m_checksum = 0, payload = replicate 65536 0\<rparr>) = 65540
   \<and> unat (m_size (FlashSettings \<lparr>m_size = 0, m_checksum = 0, payload = replicate 65536 0\<rparr>)) = 4"
proof -
  let ?big = "\<lparr>m_size = 0, m_checksum = 0, payload = replicate 65536 0\<rparr> :: T"
  have r: "reachable (FlashSettings ?big)"
    by (rule constructed)
  have s: "sizeof_T (FlashSettings ?big) = 65540"
    by (simp add: sizeof_T_def FlashSettings_def)
  have "m_size (FlashSettings ?big) = of_nat 65540"
    by (simp add: sizeof_T_def FlashSettings_def)
  then have "unat (m_size (FlashSettings ?big)) = 65540 mod 2 ^ 16"
    by (simp only: unat_of_nat) simp
  with r s show ?thesis
    by simp
qed


section \<open>One changed byte\<close>

lemma sum_list_map_update:
  "k < length xs \<Longrightarrow>
   sum_list (map f (xs[k := b])) + f (xs ! k) = sum_list (map f xs) + (f b :: nat)"
proof (induction xs arbitrary: k)
  case Nil
  then show ?case by simp
next
  case (Cons x xs)
  show ?case
  proof (cases k)
    case 0
    then show ?thesis by simp
  next
    case (Suc j)
    with Cons.prems have "j < length xs" by simp
    from Cons.IH [OF this] Suc show ?thesis by simp
  qed
qed

lemma mod255_cancel:
  fixes a b s s' :: nat
  assumes "s' + a = s + b" and "s' mod 255 = s mod 255"
  shows "a mod 255 = b mod 255"
proof -
  have "(int s' + int a) = (int s + int b)"
    using assms(1) by presburger
  then have "int a - int b = int s - int s'"
    by simp
  moreover have "255 dvd (int s - int s')"
    using assms(2) by (metis mod_eq_dvd_iff of_nat_mod of_nat_numeral)
  ultimately have "255 dvd (int a - int b)"
    by simp
  then have "int a mod 255 = int b mod 255"
    by (simp add: mod_eq_dvd_iff)
  then show ?thesis
    by (metis nat_int of_nat_mod of_nat_numeral)
qed

lemma fletcher16_reference_low:
  "bs \<noteq> [] \<Longrightarrow> fletcher16_reference bs mod 256 = sum_list bs mod 255"
proof -
  assume ne: "bs \<noteq> []"
  obtain s1 s2 where s: "fletcher16_sums bs 0 0 = (s1, s2)"
    by (cases "fletcher16_sums bs 0 0")
  have "s1 < 255"
    using fletcher16_sums_bounded [of 0 0 bs] s by simp
  moreover have "s1 = sum_list bs mod 255"
    using fletcher16_sums_fst [of bs 0 0] s ne by simp
  ultimately show ?thesis
    by (simp add: fletcher16_reference_def s or_shift8_nat)
qed

lemma unat_record_checksum:
  "unat (record_checksum this) = fletcher16_reference (map unat (pData (this\<lparr>m_checksum := 0\<rparr>)))"
proof -
  have "int (sizeof_T this) = int (length (pData (this\<lparr>m_checksum := 0\<rparr>)))"
    by (simp add: length_pData sizeof_T_update)
  then show ?thesis
    unfolding record_checksum_def by (simp only: unat_fletcher16)
qed

lemma sum_list_pData:
  "sum_list (map unat (pData this)) =
     unat (lo_byte (m_size this)) + unat (hi_byte (m_size this)) +
     unat (lo_byte (m_checksum this)) + unat (hi_byte (m_checksum this)) +
     sum_list (map unat (payload this))"
  by (simp add: pData_def)

lemma record_checksum_changes:
  assumes "k < length (payload this)"
      and "unat b mod 255 \<noteq> unat (payload this ! k) mod 255"
  shows "record_checksum (this\<lparr>payload := (payload this)[k := b]\<rparr>) \<noteq> record_checksum this"
proof
  let ?that = "this\<lparr>payload := (payload this)[k := b]\<rparr>"
  let ?old = "map unat (pData (this\<lparr>m_checksum := 0\<rparr>))"
  let ?new = "map unat (pData (?that\<lparr>m_checksum := 0\<rparr>))"
  assume "record_checksum ?that = record_checksum this"
  then have "fletcher16_reference ?new = fletcher16_reference ?old"
    by (simp only: unat_record_checksum [symmetric])
  moreover have "?new \<noteq> []" "?old \<noteq> []"
    by (simp_all add: pData_def)
  ultimately have same: "sum_list ?new mod 255 = sum_list ?old mod 255"
    using fletcher16_reference_low [of ?new] fletcher16_reference_low [of ?old] by simp
  have "sum_list ?new + unat (payload this ! k) = sum_list ?old + unat b"
    using sum_list_map_update [OF assms(1), of unat b] by (simp add: sum_list_pData)
  from mod255_cancel [OF this same] assms(2) show False
    by simp
qed

text \<open>
  C2 (as the code has it).  Between two consecutive calls of \<^verbatim>\<open>update()\<close> one payload byte is
  assigned a new value.  When the old and the new value differ modulo 255, that is, for every
  change of the byte but the one between \<open>0x00\<close> and \<open>0xFF\<close>, the second call writes every byte
  of the record and commits, and the storage then holds the object's bytes.
\<close>

theorem changed_byte_triggers_write:
  assumes "k < length (payload this)"
      and "unat b mod 255 \<noteq> unat (payload this ! k) mod 255"
  shows "let this1 = update_this this E;
             E1 = update_storage this E;
             changed = this1\<lparr>payload := (payload this1)[k := b]\<rparr>;
             this2 = update_this changed E1;
             E2 = update_storage changed E1
         in trace E2 = trace E1 @ map (\<lambda>j. Write j (pData this2 ! j)) [0..<sizeof_T this] @ [Commit]
            \<and> stored_image E2 (sizeof_T this) = pData this2"
proof -
  define this1 where "this1 = update_this this E"
  define E1 where "E1 = update_storage this E"
  define changed where "changed = this1\<lparr>payload := (payload this1)[k := b]\<rparr>"
  have p1: "payload this1 = payload this"
    by (simp add: this1_def update_this_eq)
  have ck: "m_checksum changed = record_checksum this1"
    by (simp add: changed_def this1_def update_this_eq)
  have "record_checksum changed \<noteq> record_checksum this1"
    unfolding changed_def using assms by (intro record_checksum_changes) (simp_all add: p1)
  with ck have differs: "m_checksum changed \<noteq> record_checksum changed"
    by simp
  have sz: "sizeof_T changed = sizeof_T this"
    by (simp add: changed_def sizeof_T_def p1)
  have st: "update_storage changed E1 =
      E1\<lparr>cells := (\<lambda>j. if j < sizeof_T this then pData (update_this changed E1) ! j else cells E1 j),
         trace := trace E1 @ map (\<lambda>j. Write j (pData (update_this changed E1) ! j)) [0..<sizeof_T this]
                    @ [Commit]\<rparr>"
    using differs by (simp only: update_storage_eq [of changed E1] sz if_False)
  have "stored_image (update_storage changed E1) (sizeof_T this) = pData (update_this changed E1)"
    unfolding st stored_image_def
    by (rule nth_equalityI) (simp_all add: length_pData sz)
  moreover have "trace (update_storage changed E1) =
      trace E1 @ map (\<lambda>j. Write j (pData (update_this changed E1) ! j)) [0..<sizeof_T this] @ [Commit]"
    unfolding st by simp
  ultimately show ?thesis
    by (simp add: Let_def this1_def E1_def changed_def)
qed

theorem changed_byte_triggers_write_witness:
  "(0 :: nat) < length (payload (FlashSettings \<lparr>m_size = 0, m_checksum = 0, payload = [0x00]\<rparr>))
   \<and> unat (0x01 :: uint8_t) mod 255
       \<noteq> unat (payload (FlashSettings \<lparr>m_size = 0, m_checksum = 0, payload = [0x00]\<rparr>) ! 0) mod 255
   \<and> (let this1 = update_this (FlashSettings \<lparr>m_size = 0, m_checksum = 0, payload = [0x00]\<rparr>)
                      erased_eeprom;
            E1 = update_storage (FlashSettings \<lparr>m_size = 0, m_checksum = 0, payload = [0x00]\<rparr>)
                      erased_eeprom;
            changed = this1\<lparr>payload := (payload this1)[0 := 0x01]\<rparr>;
            this2 = update_this changed E1;
            E2 = update_storage changed E1
        in trace E2 = trace E1 @ map (\<lambda>j. Write j (pData this2 ! j))
                 [0..<sizeof_T (FlashSettings \<lparr>m_size = 0, m_checksum = 0, payload = [0x00]\<rparr>)]
               @ [Commit]
           \<and> stored_image E2 (sizeof_T (FlashSettings \<lparr>m_size = 0, m_checksum = 0, payload = [0x00]\<rparr>))
               = pData this2)"
proof -
  let ?fresh = "FlashSettings \<lparr>m_size = 0, m_checksum = 0, payload = [0x00]\<rparr>"
  have k: "(0 :: nat) < length (payload ?fresh)"
    by (simp add: FlashSettings_def)
  have b: "unat (0x01 :: uint8_t) mod 255 \<noteq> unat (payload ?fresh ! 0) mod 255"
    by (simp add: FlashSettings_def)
  show ?thesis
    using changed_byte_triggers_write [OF k b, of erased_eeprom] k b by blast
qed

text \<open>
  C2 as stated does not hold: Fletcher-16 adds the bytes modulo 255, so \<open>0x00\<close> and \<open>0xFF\<close>
  count the same.  After a five-byte record with the payload byte \<open>0x00\<close> was saved, the byte is
  set to \<open>0xFF\<close>; the second \<^verbatim>\<open>update()\<close> finds the checksum unchanged and issues nothing: the
  trace is still that of the first call, and the storage still holds \<open>0x00\<close>.
\<close>

theorem changed_byte_triggers_write_counterexample:
  "payload (update_this (FlashSettings \<lparr>m_size = 0, m_checksum = 0, payload = [0x00]\<rparr>)
              erased_eeprom) = [0x00]
   \<and> trace (update_storage (FlashSettings \<lparr>m_size = 0, m_checksum = 0, payload = [0x00]\<rparr>)
              erased_eeprom)
       = [Write 0 0x05, Write 1 0x00, Write 2 0x05, Write 3 0x19, Write 4 0x00, Commit]
   \<and> trace (update_storage
         (update_this (FlashSettings \<lparr>m_size = 0, m_checksum = 0, payload = [0x00]\<rparr>) erased_eeprom
            \<lparr>payload := [0xFF]\<rparr>)
         (update_storage (FlashSettings \<lparr>m_size = 0, m_checksum = 0, payload = [0x00]\<rparr>)
            erased_eeprom))
       = [Write 0 0x05, Write 1 0x00, Write 2 0x05, Write 3 0x19, Write 4 0x00, Commit]
   \<and> stored_image (update_storage
         (update_this (FlashSettings \<lparr>m_size = 0, m_checksum = 0, payload = [0x00]\<rparr>) erased_eeprom
            \<lparr>payload := [0xFF]\<rparr>)
         (update_storage (FlashSettings \<lparr>m_size = 0, m_checksum = 0, payload = [0x00]\<rparr>)
            erased_eeprom)) 5
       = [0x05, 0x00, 0x05, 0x19, 0x00]"
  by code_simp

section \<open>Saving, then loading\<close>

text \<open>
  C1 (as the code has it).  An object whose size field holds \<^verbatim>\<open>sizeof(T)\<close>, and whose checksum
  field is not yet the checksum of its bytes, is saved by \<^verbatim>\<open>update()\<close>.  A freshly constructed
  object of the same type then calls \<^verbatim>\<open>begin()\<close> against the resulting storage:
  \<^verbatim>\<open>begin()\<close> returns true, and the fresh object has become the saved one, payload and header.
\<close>

theorem save_then_load_roundtrip:
  assumes "unat (m_size this) = sizeof_T this"
      and "m_checksum this \<noteq> record_checksum this"
      and "sizeof_T fresh = sizeof_T this"
  shows "begin_result F (FlashSettings fresh) (update_storage this E) = True
         \<and> payload (begin_this F (FlashSettings fresh) (update_storage this E)) = payload this
         \<and> begin_this F (FlashSettings fresh) (update_storage this E) = update_this this E"
proof -
  let ?n = "sizeof_T this"
  let ?E1 = "update_storage this E"
  let ?this1 = "update_this this E"
  have n: "sizeof_T (FlashSettings fresh) = ?n"
    using assms(3) by simp
  have st: "?E1 =
      E\<lparr>cells := (\<lambda>j. if j < ?n then pData ?this1 ! j else cells E j),
        trace := trace E @ map (\<lambda>j. Write j (pData ?this1 ! j)) [0..<?n] @ [Commit]\<rparr>"
    using assms(2) by (simp only: update_storage_eq [of this E] if_False)
  have img: "stored_image ?E1 ?n = pData ?this1"
    by (subst st, unfold stored_image_def, rule nth_equalityI) (simp_all add: length_pData)
  have size_ok: "unat (pwTemp_get (pData ?this1) 0) = ?n"
    using assms(1) by (simp add: pwTemp_get_pData_0 update_this_eq)
  have "pwTemp_set (pData ?this1) 1 0 = pData (this\<lparr>m_checksum := 0\<rparr>)"
    by (simp add: pwTemp_set_pData_1 update_this_eq del: One_nat_def)
  then have sum_ok: "fletcher16 (pwTemp_set (pData ?this1) 1 0) (int ?n) = pwTemp_get (pData ?this1) 1"
    by (simp add: pwTemp_get_pData_1 update_this_eq record_checksum_def del: One_nat_def)
  have "FlashSettings_begin F (FlashSettings fresh) ?E1 =
      (True, ?this1, ?E1\<lparr>trace := trace ?E1 @ Open F # map Read [0..<?n]\<rparr>)"
    unfolding FlashSettings_begin_eq n img
    using size_ok sum_ok by (simp add: memcpy_this_pData)
  then show ?thesis
    by (simp add: begin_result_def begin_this_def update_this_eq)
qed

theorem save_then_load_roundtrip_witness:
  "unat (m_size (FlashSettings \<lparr>m_size = 0, m_checksum = 0, payload = [1, 2]\<rparr>))
     = sizeof_T (FlashSettings \<lparr>m_size = 0, m_checksum = 0, payload = [1, 2]\<rparr>)
   \<and> m_checksum (FlashSettings \<lparr>m_size = 0, m_checksum = 0, payload = [1, 2]\<rparr>)
     \<noteq> record_checksum (FlashSettings \<lparr>m_size = 0, m_checksum = 0, payload = [1, 2]\<rparr>)
   \<and> sizeof_T \<lparr>m_size = 0, m_checksum = 0, payload = [0, 0]\<rparr>
     = sizeof_T (FlashSettings \<lparr>m_size = 0, m_checksum = 0, payload = [1, 2]\<rparr>)
   \<and> begin_result 512 (FlashSettings \<lparr>m_size = 0, m_checksum = 0, payload = [0, 0]\<rparr>)
        (update_storage (FlashSettings \<lparr>m_size = 0, m_checksum = 0, payload = [1, 2]\<rparr>)
           erased_eeprom) = True
   \<and> payload (begin_this 512 (FlashSettings \<lparr>m_size = 0, m_checksum = 0, payload = [0, 0]\<rparr>)
        (update_storage (FlashSettings \<lparr>m_size = 0, m_checksum = 0, payload = [1, 2]\<rparr>)
           erased_eeprom)) = [1, 2]"
proof -
  let ?saved = "FlashSettings \<lparr>m_size = 0, m_checksum = 0, payload = [1, 2]\<rparr>"
  let ?fresh = "\<lparr>m_size = 0, m_checksum = 0, payload = [0, 0]\<rparr> :: T"
  have size: "unat (m_size ?saved) = sizeof_T ?saved"
    by (simp add: FlashSettings_def sizeof_T_def)
  have dirty: "m_checksum ?saved \<noteq> record_checksum ?saved"
    by code_simp
  have same_type: "sizeof_T ?fresh = sizeof_T ?saved"
    by (simp add: sizeof_T_def FlashSettings_def)
  have kept: "payload ?saved = [1, 2]"
    by (simp add: FlashSettings_def)
  have "begin_result 512 (FlashSettings ?fresh) (update_storage ?saved erased_eeprom) = True
      \<and> payload (begin_this 512 (FlashSettings ?fresh) (update_storage ?saved erased_eeprom)) = [1, 2]"
    using save_then_load_roundtrip [OF size dirty same_type, of 512 erased_eeprom] kept
    by metis
  with size dirty same_type show ?thesis
    by blast
qed

text \<open>
  C1 as stated does not hold: when the checksum field already holds the checksum of the object,
  \<^verbatim>\<open>update()\<close> writes nothing, and the storage is whatever it was.  The freshly constructed
  six-byte record with the payload \<open>0xE1, 0xC2\<close> has the checksum \<open>0xAAAA\<close> of the constructor;
  saved against erased storage and loaded into a fresh object with the payload \<open>0x00, 0x00\<close>,
  \<^verbatim>\<open>begin()\<close> returns false and the payload stays \<open>0x00, 0x00\<close>.
\<close>

theorem save_then_load_roundtrip_counterexample:
  "begin_result 512 (FlashSettings \<lparr>m_size = 0, m_checksum = 0, payload = [0x00, 0x00]\<rparr>)
     (update_storage (FlashSettings \<lparr>m_size = 0, m_checksum = 0, payload = [0xE1, 0xC2]\<rparr>)
        erased_eeprom) = False
   \<and> payload (begin_this 512 (FlashSettings \<lparr>m_size = 0, m_checksum = 0, payload = [0x00, 0x00]\<rparr>)
       (update_storage (FlashSettings \<lparr>m_size = 0, m_checksum = 0, payload = [0xE1, 0xC2]\<rparr>)
          erased_eeprom)) = [0x00, 0x00]
   \<and> payload (FlashSettings \<lparr>m_size = 0, m_checksum = 0, payload = [0xE1, 0xC2]\<rparr>) = [0xE1, 0xC2]"
proof -
  let ?saved = "FlashSettings \<lparr>m_size = 0, m_checksum = 0, payload = [0xE1, 0xC2]\<rparr>"
  have "m_checksum ?saved = record_checksum ?saved"
    by code_simp
  then have "update_storage ?saved erased_eeprom = erased_eeprom"
    by (simp add: update_storage_eq)
  then show ?thesis
    by (simp add: begin_fails_on_erased) (simp add: FlashSettings_def)
qed

end
